theory Spec2Isabelle
  imports Complex_Main "HOL-Library.Multiset"
begin

section \<open>The arc-plot renderer of RNA\_Fold\_arcPlot.ipynb\<close>

text \<open>
  The notebook defines \<open>generate_arc_plot(start_nt, end_nt, dp_file, name)\<close> twice: once
  writing a PDF (Section 2a, first cell) and once writing an SVG (second cell). Both are
  embedded below, each from its own cell. The notebook runs on a Python 2.7 kernel, so
  \<open>/\<close> between two integers is floor division (\<open>div\<close> on \<open>int\<close>), and \<open>/ 2.0\<close> is
  division of floats.

  What is modelled and what is not:
  \<^item> The dot-plot file is taken as already read: \<open>total_length\<close> is the value of
    \<open>int(f.readline().strip())\<close> and \<open>prob_df\<close> the rows of \<open>pd.read_csv(f, sep='\t')\<close>,
    in file order, restricted to the three columns the function reads. Errors raised
    while opening or parsing the file are outside the embedding.
  \<^item> Positions are Python integers (\<open>int\<close>). Scores are floats, modelled by the real
    number they denote. The float literals \<open>0.09691\<close> and \<open>0.52288\<close> that the code
    compares with are the doubles nearest to those decimals, not the decimals
    themselves; the other literals (\<open>0.5\<close>, \<open>1\<close>, \<open>2\<close>, \<open>2.0\<close>, \<open>4\<close>) are exact. Only
    comparisons, a sum, a difference and a division by two or four are applied to floats.
  \<^item> The matplotlib calls act on an explicit state: \<open>plt.subplots\<close> appends the figure
    size to \<open>subplots_calls\<close> when it creates the figure, the \<open>ax.*\<close> calls set fields of
    the axes, \<open>ax.add_patch\<close> appends to \<open>patches\<close>, and \<open>plt.savefig\<close> appends a file to
    \<open>written\<close>. The two calls that can fail on the figure size do so in the model:
    \<open>plt.subplots\<close> raises on a negative width or height, before any figure exists, and
    \<open>plt.savefig\<close> raises on a figure with a zero width or height, which cannot be drawn,
    and writes nothing. \<open>plt.close\<close> leaves no trace in the state.
\<close>

subsection \<open>Data\<close>

text \<open>One data row of the dot plot: columns \<open>i\<close>, \<open>j\<close> and \<open>-log10(Probability)\<close>.\<close>

record dp_row =
  row_i :: int
  row_j :: int
  row_log_prob :: real

record dp_table =
  total_length :: int
  prob_df :: "dp_row list"

text \<open>
  \<open>matplotlib.patches.Arc((center, 0), j - i, j - i, theta1=0, theta2=180, color=color,
  lw=10, alpha=0.5)\<close>: the centre, the width and the height as the call passes them.
\<close>

record arc_patch =
  xy :: "real \<times> real"
  width :: int
  height :: int
  theta1 :: int
  theta2 :: int
  color :: string
  lw :: int
  alpha :: real

text \<open>The figure and its axes, as the calls of steps 3 to 7 leave them.\<close>

record axes =
  figsize :: "int \<times> real"
  xlim :: "real \<times> real"
  ylim :: "real \<times> real"
  xticks :: "int list"
  patches :: "arc_patch list"
  spine_top_visible :: bool
  spine_right_visible :: bool
  spine_left_visible :: bool
  yticks :: "real list option"
  x_labelsize :: "int option"
  aspect :: string

record saved_file =
  path :: string
  file_format :: string
  bbox_inches :: string
  dpi :: "int option"
  figure :: axes

record pyplot =
  subplots_calls :: "(int \<times> real) list"
  written :: "saved_file list"

text \<open>
  The only exception the function raises itself is a \<open>ValueError\<close> with a message. The
  other failures come out of the two matplotlib calls that depend on the figure size.
\<close>

datatype mpl_call = Subplots | Savefig

datatype error = ValueError string | MatplotlibError mpl_call

text \<open>
  The specification's name for the error of step 2.
\<close>

abbreviation RangeExceedsSequence :: error where
  "RangeExceedsSequence \<equiv>
     ValueError ''end_nt exceeds the total length of the RNA sequence in the dp file''"

text \<open>
  The four probability groups of the docstring (green: highest, blue: medium-high,
  yellow: medium, light grey: low), under the names the specification gives them, read
  off the priority the code assigns.
\<close>

datatype confidence_band = HIGH | MEDIUM_HIGH | MEDIUM | LOW

definition band_of_priority :: "int \<Rightarrow> confidence_band" where
  "band_of_priority p =
     (if p = 3 then HIGH else if p = 2 then MEDIUM_HIGH else if p = 1 then MEDIUM else LOW)"

subsection \<open>Pieces shared by the description of both cells\<close>

text \<open>
  Python's builtin \<open>max\<close> over a non-empty sequence: the first element, replaced by each
  later element that is greater.
\<close>

fun py_max_from :: "int \<Rightarrow> int list \<Rightarrow> int" where
  "py_max_from m [] = m"
| "py_max_from m (x # xs) = py_max_from (if x > m then x else m) xs"

text \<open>
  The doubles that the literals \<open>0.09691\<close> and \<open>0.52288\<close> denote (round to nearest, 53-bit
  significand): the first lies just below its decimal, the second just above.
\<close>

definition float_0_09691 :: real where
  "float_0_09691 = 6983101438215596 / 2 ^ 56"

definition float_0_52288 :: real where
  "float_0_52288 = 4709684346318970 / 2 ^ 53"

text \<open>
  What the function relies on from matplotlib. \<open>plt.subplots(figsize=(w, h))\<close> creates the
  figure unless a dimension is negative (``figure size must be positive finite'');
  \<open>plt.savefig\<close> draws the figure, which fails when a dimension is zero.
\<close>

definition subplots_accepts :: "int \<times> real \<Rightarrow> bool" where
  "subplots_accepts fs = (0 \<le> fst fs \<and> 0 \<le> snd fs)"

definition savefig_accepts :: "int \<times> real \<Rightarrow> bool" where
  "savefig_accepts fs = (0 < fst fs \<and> 0 < snd fs)"

text \<open>The initial axes: nothing set yet, spines visible, no patches.\<close>

definition new_axes :: "int \<times> real \<Rightarrow> axes" where
  "new_axes fs =
     \<lparr>figsize = fs, xlim = (0, 1), ylim = (0, 1), xticks = [], patches = [],
      spine_top_visible = True, spine_right_visible = True, spine_left_visible = True,
      yticks = None, x_labelsize = None, aspect = ''auto''\<rparr>"

subsection \<open>Section 2a, first cell: the PDF renderer\<close>

text \<open>
  The body of the \<open>if\<close> of step 4 for one row inside the range: radius (computed and not
  used), centre, the colour and priority of the \<open>if\<close>/\<open>elif\<close> chain, and the pair
  appended to \<open>arc_list\<close>.
\<close>

definition arc_entry_pdf :: "int \<Rightarrow> int \<Rightarrow> real \<Rightarrow> arc_patch \<times> int" where
  "arc_entry_pdf i j log_prob =
     (let radius = real_of_int (j - i) / 2;
          center = real_of_int (i + j) / 2;
          (color, priority) =
            (if log_prob \<le> float_0_09691 then (''green'', 3)
             else if log_prob \<le> float_0_52288 then (''#1C73BE'', 2)
             else if log_prob \<le> 1 then (''#F7CE12'', 1)
             else (''#D3D3D3'', 0))
      in (\<lparr>xy = (center, 0), width = j - i, height = j - i, theta1 = 0, theta2 = 180,
           color = color, lw = 10, alpha = 0.5\<rparr>, priority))"

text \<open>The loop of step 4 over the rows, appending to \<open>arc_list\<close>.\<close>

fun collect_arcs_pdf ::
  "int \<Rightarrow> int \<Rightarrow> dp_row list \<Rightarrow> (arc_patch \<times> int) list \<Rightarrow> (arc_patch \<times> int) list" where
  "collect_arcs_pdf start_nt end_nt [] arc_list = arc_list"
| "collect_arcs_pdf start_nt end_nt (row # rows) arc_list =
     (let i = row_i row; j = row_j row; log_prob = row_log_prob row
      in if start_nt \<le> i \<and> i \<le> end_nt \<and> start_nt \<le> j \<and> j \<le> end_nt
         then collect_arcs_pdf start_nt end_nt rows (arc_list @ [arc_entry_pdf i j log_prob])
         else collect_arcs_pdf start_nt end_nt rows arc_list)"

text \<open>The loop of step 6.\<close>

fun add_patches_pdf :: "(arc_patch \<times> int) list \<Rightarrow> axes \<Rightarrow> axes" where
  "add_patches_pdf [] ax = ax"
| "add_patches_pdf ((arc, _) # rest) ax = add_patches_pdf rest (ax\<lparr>patches := patches ax @ [arc]\<rparr>)"

text \<open>
  \<open>arc_list\<close> after step 5: the list built by step 4, sorted by \<open>list.sort(key=...)\<close>, which
  is stable; \<open>sort_key\<close> is the stable sort of the HOL library.
\<close>

definition sorted_arc_list_pdf :: "int \<Rightarrow> int \<Rightarrow> dp_row list \<Rightarrow> (arc_patch \<times> int) list" where
  "sorted_arc_list_pdf start_nt end_nt df = sort_key snd (collect_arcs_pdf start_nt end_nt df [])"

text \<open>Step 3: the maximum arc height over the rows that pass the filter of that step.\<close>

definition max_arc_height_pdf :: "int \<Rightarrow> int \<Rightarrow> dp_row list \<Rightarrow> real" where
  "max_arc_height_pdf start_nt end_nt df =
     (let filtered_prob_df = filter (\<lambda>row. row_j row \<le> end_nt \<and> row_i row \<ge> start_nt) df
      in case map (\<lambda>row. row_j row - row_i row) filtered_prob_df of
           d # ds \<Rightarrow> real_of_int (py_max_from d ds) / 2
         | [] \<Rightarrow> 0)"

definition generate_arc_plot_pdf ::
  "int \<Rightarrow> int \<Rightarrow> dp_table \<Rightarrow> string \<Rightarrow> pyplot \<Rightarrow> (error + unit) \<times> pyplot" where
  "generate_arc_plot_pdf start_nt end_nt dp_file name plt =
     (let df = filter (\<lambda>row. row_log_prob row < 2) (prob_df dp_file)
      in if end_nt > total_length dp_file then (Inl RangeExceedsSequence, plt)
         else
           let max_arc_height = max_arc_height_pdf start_nt end_nt df;
               fig_width = (end_nt - start_nt) div 4;
               fig_height = max_arc_height / 4;
               x_range = [start_nt..end_nt]
           in if \<not> subplots_accepts (fig_width, fig_height)
              then (Inl (MatplotlibError Subplots), plt)
              else
                let plt = plt\<lparr>subplots_calls := subplots_calls plt @ [(fig_width, fig_height)]\<rparr>;
                    ax = (new_axes (fig_width, fig_height))
                           \<lparr>xlim := (real_of_int start_nt - 0.5, real_of_int end_nt + 0.5),
                            ylim := (0, max_arc_height + 0.5),
                            xticks := x_range\<rparr>;
                    ax = add_patches_pdf (sorted_arc_list_pdf start_nt end_nt df) ax;
                    ax = ax\<lparr>spine_top_visible := False, spine_right_visible := False,
                            spine_left_visible := False, yticks := Some [],
                            x_labelsize := Some 4, aspect := ''equal''\<rparr>
                in if \<not> savefig_accepts (fig_width, fig_height)
                   then (Inl (MatplotlibError Savefig), plt)
                   else (Inr (),
                         plt\<lparr>written := written plt @
                           [\<lparr>path = name @ ''.pdf'', file_format = ''pdf'',
                             bbox_inches = ''tight'', dpi = Some 300, figure = ax\<rparr>]\<rparr>))"

subsection \<open>Section 2a, second cell: the SVG renderer\<close>

definition arc_entry_svg :: "int \<Rightarrow> int \<Rightarrow> real \<Rightarrow> arc_patch \<times> int" where
  "arc_entry_svg i j log_prob =
     (let radius = real_of_int (j - i) / 2;
          center = real_of_int (i + j) / 2;
          (color, priority) =
            (if log_prob \<le> float_0_09691 then (''green'', 3)
             else if log_prob \<le> float_0_52288 then (''#1C73BE'', 2)
             else if log_prob \<le> 1 then (''#F7CE12'', 1)
             else (''#D3D3D3'', 0))
      in (\<lparr>xy = (center, 0), width = j - i, height = j - i, theta1 = 0, theta2 = 180,
           color = color, lw = 10, alpha = 0.5\<rparr>, priority))"

fun collect_arcs_svg ::
  "int \<Rightarrow> int \<Rightarrow> dp_row list \<Rightarrow> (arc_patch \<times> int) list \<Rightarrow> (arc_patch \<times> int) list" where
  "collect_arcs_svg start_nt end_nt [] arc_list = arc_list"
| "collect_arcs_svg start_nt end_nt (row # rows) arc_list =
     (let i = row_i row; j = row_j row; log_prob = row_log_prob row
      in if start_nt \<le> i \<and> i \<le> end_nt \<and> start_nt \<le> j \<and> j \<le> end_nt
         then collect_arcs_svg start_nt end_nt rows (arc_list @ [arc_entry_svg i j log_prob])
         else collect_arcs_svg start_nt end_nt rows arc_list)"

fun add_patches_svg :: "(arc_patch \<times> int) list \<Rightarrow> axes \<Rightarrow> axes" where
  "add_patches_svg [] ax = ax"
| "add_patches_svg ((arc, _) # rest) ax = add_patches_svg rest (ax\<lparr>patches := patches ax @ [arc]\<rparr>)"

definition sorted_arc_list_svg :: "int \<Rightarrow> int \<Rightarrow> dp_row list \<Rightarrow> (arc_patch \<times> int) list" where
  "sorted_arc_list_svg start_nt end_nt df = sort_key snd (collect_arcs_svg start_nt end_nt df [])"

text \<open>Step 3: the maximum arc height over the rows that pass the filter of that step.\<close>

definition max_arc_height_svg :: "int \<Rightarrow> int \<Rightarrow> dp_row list \<Rightarrow> real" where
  "max_arc_height_svg start_nt end_nt df =
     (let filtered_prob_df = filter (\<lambda>row. row_j row \<le> end_nt \<and> row_i row \<ge> start_nt) df
      in case map (\<lambda>row. row_j row - row_i row) filtered_prob_df of
           d # ds \<Rightarrow> real_of_int (py_max_from d ds) / 2
         | [] \<Rightarrow> 0)"

definition generate_arc_plot_svg ::
  "int \<Rightarrow> int \<Rightarrow> dp_table \<Rightarrow> string \<Rightarrow> pyplot \<Rightarrow> (error + unit) \<times> pyplot" where
  "generate_arc_plot_svg start_nt end_nt dp_file name plt =
     (let df = filter (\<lambda>row. row_log_prob row < 2) (prob_df dp_file)
      in if end_nt > total_length dp_file then (Inl RangeExceedsSequence, plt)
         else
           let max_arc_height = max_arc_height_svg start_nt end_nt df;
               fig_width = (end_nt - start_nt) div 4;
               fig_height = max_arc_height / 4;
               x_range = [start_nt..end_nt]
           in if \<not> subplots_accepts (fig_width, fig_height)
              then (Inl (MatplotlibError Subplots), plt)
              else
                let plt = plt\<lparr>subplots_calls := subplots_calls plt @ [(fig_width, fig_height)]\<rparr>;
                    ax = (new_axes (fig_width, fig_height))
                           \<lparr>xlim := (real_of_int start_nt - 0.5, real_of_int end_nt + 0.5),
                            ylim := (0, max_arc_height + 0.5),
                            xticks := x_range\<rparr>;
                    ax = add_patches_svg (sorted_arc_list_svg start_nt end_nt df) ax;
                    ax = ax\<lparr>spine_top_visible := False, spine_right_visible := False,
                            spine_left_visible := False, yticks := Some [],
                            x_labelsize := Some 4, aspect := ''equal''\<rparr>
                in if \<not> savefig_accepts (fig_width, fig_height)
                   then (Inl (MatplotlibError Savefig), plt)
                   else (Inr (),
                         plt\<lparr>written := written plt @
                           [\<lparr>path = name @ ''.svg'', file_format = ''svg'',
                             bbox_inches = ''tight'', dpi = None, figure = ax\<rparr>]\<rparr>))"

subsection \<open>Observations and example inputs\<close>

text \<open>The test of step 4: both positions of the row lie in the requested range.\<close>

abbreviation in_range :: "int \<Rightarrow> int \<Rightarrow> dp_row \<Rightarrow> bool" where
  "in_range s e r \<equiv> s \<le> row_i r \<and> row_i r \<le> e \<and> s \<le> row_j r \<and> row_j r \<le> e"

text \<open>The state before any call, and the table of the end-to-end scenario.\<close>

definition fresh_pyplot :: pyplot where
  "fresh_pyplot = \<lparr>subplots_calls = [], written = []\<rparr>"

definition scenario_table :: dp_table where
  "scenario_table = \<lparr>total_length = 20, prob_df =
      [\<lparr>row_i = 5, row_j = 15, row_log_prob = 0.05\<rparr>,
       \<lparr>row_i = 6, row_j = 14, row_log_prob = 0.3\<rparr>,
       \<lparr>row_i = 7, row_j = 13, row_log_prob = 0.9\<rparr>,
       \<lparr>row_i = 8, row_j = 12, row_log_prob = 1.5\<rparr>,
       \<lparr>row_i = 9, row_j = 11, row_log_prob = 2.5\<rparr>]\<rparr>"

definition unordered_table :: dp_table where
  "unordered_table = \<lparr>total_length = 20, prob_df =
      [\<lparr>row_i = 5, row_j = 15, row_log_prob = 0.05\<rparr>,
       \<lparr>row_i = 12, row_j = 8, row_log_prob = 0.3\<rparr>]\<rparr>"

definition outside_table :: dp_table where
  "outside_table = \<lparr>total_length = 50, prob_df =
      [\<lparr>row_i = 30, row_j = 2, row_log_prob = 0.05\<rparr>]\<rparr>"



section \<open>Properties\<close>

subsection \<open>The loops in closed form\<close>
lemma py_max_from_Max: "py_max_from m xs = Max (insert m (set xs))"
proof (induction xs arbitrary: m)
  case Nil
  then show ?case by simp
next
  case (Cons x xs)
  have "Max (insert (if m < x then x else m) (set xs)) = Max (insert m (insert x (set xs)))"
    by (cases "set xs = {}") (auto simp: max_def)
  with Cons show ?case by simp
qed

lemma collect_arcs_pdf_eq:
  "collect_arcs_pdf s e rows acc =
     acc @ map (\<lambda>r. arc_entry_pdf (row_i r) (row_j r) (row_log_prob r))
             (filter (in_range s e) rows)"
  by (induction rows arbitrary: acc) (simp_all add: Let_def)

lemma collect_arcs_svg_eq:
  "collect_arcs_svg s e rows acc =
     acc @ map (\<lambda>r. arc_entry_svg (row_i r) (row_j r) (row_log_prob r))
             (filter (in_range s e) rows)"
  by (induction rows arbitrary: acc) (simp_all add: Let_def)

lemma add_patches_pdf_eq: "add_patches_pdf al ax = ax\<lparr>patches := patches ax @ map fst al\<rparr>"
  by (induction al ax rule: add_patches_pdf.induct) simp_all

lemma add_patches_svg_eq: "add_patches_svg al ax = ax\<lparr>patches := patches ax @ map fst al\<rparr>"
  by (induction al ax rule: add_patches_svg.induct) simp_all

lemma arc_entry_svg_pdf: "arc_entry_svg i j lp = arc_entry_pdf i j lp"
  by (simp add: arc_entry_svg_def arc_entry_pdf_def)

lemma sorted_arc_list_pdf_eq:
  "sorted_arc_list_pdf s e (filter (\<lambda>row. row_log_prob row < 2) rows) =
     sort_key snd (map (\<lambda>r. arc_entry_pdf (row_i r) (row_j r) (row_log_prob r))
       (filter (\<lambda>r. row_log_prob r < 2 \<and> in_range s e r) rows))"
  by (simp add: sorted_arc_list_pdf_def collect_arcs_pdf_eq)

lemma sorted_arc_list_svg_pdf: "sorted_arc_list_svg s e df = sorted_arc_list_pdf s e df"
  by (simp add: sorted_arc_list_svg_def sorted_arc_list_pdf_def collect_arcs_svg_eq
      collect_arcs_pdf_eq arc_entry_svg_pdf)

lemma max_arc_height_svg_pdf: "max_arc_height_svg s e df = max_arc_height_pdf s e df"
  by (simp add: max_arc_height_svg_def max_arc_height_pdf_def)

subsection \<open>The outcomes of a call\<close>

lemma pdf_raises:
  "total_length dp < e \<Longrightarrow>
     generate_arc_plot_pdf s e dp name plt = (Inl RangeExceedsSequence, plt)"
  by (simp add: generate_arc_plot_pdf_def)

lemma svg_raises:
  "total_length dp < e \<Longrightarrow>
     generate_arc_plot_svg s e dp name plt = (Inl RangeExceedsSequence, plt)"
  by (simp add: generate_arc_plot_svg_def)

lemma pdf_returns_iff:
  "fst (generate_arc_plot_pdf s e dp name plt) = Inr () \<longleftrightarrow>
     e \<le> total_length dp \<and> 0 < (e - s) div 4 \<and>
     0 < max_arc_height_pdf s e (filter (\<lambda>row. row_log_prob row < 2) (prob_df dp))"
  by (auto simp add: generate_arc_plot_pdf_def Let_def subplots_accepts_def savefig_accepts_def)

lemma svg_fst_pdf:
  "fst (generate_arc_plot_svg s e dp name plt) = fst (generate_arc_plot_pdf s e dp name plt)"
  by (simp add: generate_arc_plot_svg_def generate_arc_plot_pdf_def Let_def
      max_arc_height_svg_pdf)

lemma pdf_patches:
  "fst (generate_arc_plot_pdf s e dp name plt) = Inr () \<Longrightarrow>
     patches (figure (last (written (snd (generate_arc_plot_pdf s e dp name plt))))) =
       map fst (sorted_arc_list_pdf s e (filter (\<lambda>row. row_log_prob row < 2) (prob_df dp)))"
  by (simp add: generate_arc_plot_pdf_def Let_def add_patches_pdf_eq new_axes_def
      split: if_splits)

lemma svg_patches:
  "fst (generate_arc_plot_svg s e dp name plt) = Inr () \<Longrightarrow>
     patches (figure (last (written (snd (generate_arc_plot_svg s e dp name plt))))) =
       map fst (sorted_arc_list_pdf s e (filter (\<lambda>row. row_log_prob row < 2) (prob_df dp)))"
  by (simp add: generate_arc_plot_svg_def Let_def add_patches_svg_eq new_axes_def
      sorted_arc_list_svg_pdf split: if_splits)

lemma svg_figure_pdf:
  "map figure (written (snd (generate_arc_plot_svg s e dp name plt))) =
   map figure (written (snd (generate_arc_plot_pdf s e dp name plt)))"
  by (simp add: generate_arc_plot_svg_def generate_arc_plot_pdf_def Let_def
      add_patches_svg_eq add_patches_pdf_eq sorted_arc_list_svg_pdf max_arc_height_svg_pdf)

lemma pdf_fig_width:
  "fst (generate_arc_plot_pdf s e dp name plt) = Inr () \<Longrightarrow>
     fst (figsize (figure (last (written (snd (generate_arc_plot_pdf s e dp name plt)))))) =
       (e - s) div 4"
  by (simp add: generate_arc_plot_pdf_def Let_def add_patches_pdf_eq new_axes_def
      split: if_splits)

lemma svg_fig_width:
  "fst (generate_arc_plot_svg s e dp name plt) = Inr () \<Longrightarrow>
     fst (figsize (figure (last (written (snd (generate_arc_plot_svg s e dp name plt)))))) =
       (e - s) div 4"
  by (simp add: generate_arc_plot_svg_def Let_def add_patches_svg_eq new_axes_def
      split: if_splits)

lemma scenario_returns:
  "fst (generate_arc_plot_pdf 1 20 scenario_table name plt) = Inr ()"
  by (simp add: pdf_returns_iff) (simp add: scenario_table_def max_arc_height_pdf_def)

subsection \<open>Range validation\<close>

text \<open>
  Claim C6. When \<open>end_nt\<close> is greater than the sequence length read from the header,
  either renderer raises the \<open>ValueError\<close> of step 2 (\<open>RangeExceedsSequence\<close>). The check
  comes before \<open>plt.subplots\<close> and \<open>plt.savefig\<close>: the state is returned unchanged, so
  no canvas has been created and no file written.
\<close>

theorem end_beyond_total_length_raises:
  "end_nt > total_length dp \<Longrightarrow>
     generate_arc_plot_pdf start_nt end_nt dp name plt = (Inl RangeExceedsSequence, plt) \<and>
     generate_arc_plot_svg start_nt end_nt dp name plt = (Inl RangeExceedsSequence, plt)"
  by (simp add: pdf_raises svg_raises)

theorem end_beyond_total_length_raises_witness:
  "60 > total_length scenario_table \<and>
   generate_arc_plot_pdf 10 60 scenario_table ''AA'' fresh_pyplot
     = (Inl RangeExceedsSequence, fresh_pyplot) \<and>
   generate_arc_plot_svg 10 60 scenario_table ''AA'' fresh_pyplot
     = (Inl RangeExceedsSequence, fresh_pyplot)"
proof -
  have h: "60 > total_length scenario_table"
    by (simp add: scenario_table_def)
  show ?thesis
    using h end_beyond_total_length_raises [OF h, of 10 "''AA''" fresh_pyplot] by simp
qed

subsection \<open>Figure width\<close>

text \<open>
  Claim C7, evaluated on the notebook's own example call \<open>generate_arc_plot(1, 20, ...)\<close>.
  \<open>fig_width = (end_nt - start_nt) / 4\<close> divides two Python 2 integers, so the quotient is
  floored: the requested width is 4, not \<open>19 / 4\<close>.
\<close>

theorem fig_width_floored_at_1_20:
  "fst (figsize (figure (last (written (snd
       (generate_arc_plot_pdf 1 20 scenario_table ''AA'' fresh_pyplot)))))) = 4 \<and>
   fst (figsize (figure (last (written (snd
       (generate_arc_plot_svg 1 20 scenario_table ''AA'' fresh_pyplot)))))) = 4 \<and>
   real_of_int 4 \<noteq> real_of_int (20 - 1) / 4"
proof -
  have p: "fst (generate_arc_plot_pdf 1 20 scenario_table ''AA'' fresh_pyplot) = Inr ()"
    by (rule scenario_returns)
  then have s: "fst (generate_arc_plot_svg 1 20 scenario_table ''AA'' fresh_pyplot) = Inr ()"
    by (simp add: svg_fst_pdf)
  show ?thesis
    by (simp add: pdf_fig_width [OF p] svg_fig_width [OF s])
qed

subsection \<open>The end-to-end scenario\<close>

text \<open>
  Claim C8. On the table with header 20 and rows \<open>(5,15,0.05)\<close>, \<open>(6,14,0.3)\<close>,
  \<open>(7,13,0.9)\<close>, \<open>(8,12,1.5)\<close>, \<open>(9,11,2.5)\<close>, the request \<open>start_nt = 1\<close>, \<open>end_nt = 20\<close>
  succeeds; \<open>arc_list\<close> holds four arcs, for the first four rows in row order, of bands
  HIGH, MEDIUM\_HIGH, MEDIUM, LOW (the row with score 2.5 is gone); after the sort the bands
  are LOW, MEDIUM, MEDIUM\_HIGH, HIGH, and the arcs are added to the axes in that order.
\<close>

theorem end_to_end_scenario:
  "fst (generate_arc_plot_pdf 1 20 scenario_table ''AA'' fresh_pyplot) = Inr () \<and>
   map (\<lambda>(arc, priority). (width arc, color arc, priority, band_of_priority priority))
     (collect_arcs_pdf 1 20 (filter (\<lambda>row. row_log_prob row < 2) (prob_df scenario_table)) [])
     = [(10, ''green'', 3, HIGH), (8, ''#1C73BE'', 2, MEDIUM_HIGH),
        (6, ''#F7CE12'', 1, MEDIUM), (4, ''#D3D3D3'', 0, LOW)] \<and>
   map (band_of_priority \<circ> snd)
     (sorted_arc_list_pdf 1 20 (filter (\<lambda>row. row_log_prob row < 2) (prob_df scenario_table)))
     = [LOW, MEDIUM, MEDIUM_HIGH, HIGH] \<and>
   map (\<lambda>arc. (xy arc, width arc, color arc))
     (patches (figure (last (written (snd
        (generate_arc_plot_pdf 1 20 scenario_table ''AA'' fresh_pyplot))))))
     = [((10, 0), 4, ''#D3D3D3''), ((10, 0), 6, ''#F7CE12''),
        ((10, 0), 8, ''#1C73BE''), ((10, 0), 10, ''green'')]"
proof -
  have h: "20 \<le> total_length scenario_table"
    by (simp add: scenario_table_def)
  have rows: "filter (\<lambda>r. row_log_prob r < 2 \<and> in_range 1 20 r) (prob_df scenario_table) =
      [\<lparr>row_i = 5, row_j = 15, row_log_prob = 0.05\<rparr>,
       \<lparr>row_i = 6, row_j = 14, row_log_prob = 0.3\<rparr>,
       \<lparr>row_i = 7, row_j = 13, row_log_prob = 0.9\<rparr>,
       \<lparr>row_i = 8, row_j = 12, row_log_prob = 1.5\<rparr>]"
    by (simp add: scenario_table_def)
  have a: "fst (generate_arc_plot_pdf 1 20 scenario_table ''AA'' fresh_pyplot) = Inr ()"
    by (rule scenario_returns)
  have b: "map (\<lambda>(arc, priority). (width arc, color arc, priority, band_of_priority priority))
     (collect_arcs_pdf 1 20 (filter (\<lambda>row. row_log_prob row < 2) (prob_df scenario_table)) [])
     = [(10, ''green'', 3, HIGH), (8, ''#1C73BE'', 2, MEDIUM_HIGH),
        (6, ''#F7CE12'', 1, MEDIUM), (4, ''#D3D3D3'', 0, LOW)]"
    by (simp add: collect_arcs_pdf_eq rows) (simp add: arc_entry_pdf_def float_0_09691_def float_0_52288_def band_of_priority_def)
  have c: "map (band_of_priority \<circ> snd)
     (sorted_arc_list_pdf 1 20 (filter (\<lambda>row. row_log_prob row < 2) (prob_df scenario_table)))
     = [LOW, MEDIUM, MEDIUM_HIGH, HIGH]"
    by (simp add: sorted_arc_list_pdf_eq rows) (simp add: arc_entry_pdf_def float_0_09691_def float_0_52288_def band_of_priority_def)
  have d: "map (\<lambda>arc. (xy arc, width arc, color arc))
     (patches (figure (last (written (snd
        (generate_arc_plot_pdf 1 20 scenario_table ''AA'' fresh_pyplot))))))
     = [((10, 0), 4, ''#D3D3D3''), ((10, 0), 6, ''#F7CE12''),
        ((10, 0), 8, ''#1C73BE''), ((10, 0), 10, ''green'')]"
    by (simp add: pdf_patches [OF a] sorted_arc_list_pdf_eq rows) (simp add: arc_entry_pdf_def float_0_09691_def float_0_52288_def)
  from a b c d show ?thesis by (intro conjI)
qed

subsection \<open>Draw order\<close>

text \<open>
  Claim C1. For every table and every request, the list that step 6 walks through, in
  both renderers, is \<open>arc_list\<close> sorted by priority: priorities never decrease along it (an
  arc of a higher band is never added before one of a lower band), and the sort is
  stable: the arcs of any one priority keep the order of their table rows. Whenever a
  call returns normally, the arcs on the saved axes are the arcs of that list, in that
  order.
\<close>

theorem arcs_added_in_priority_order:
  "(let arc_list = map (\<lambda>r. arc_entry_pdf (row_i r) (row_j r) (row_log_prob r))
            (filter (\<lambda>r. row_log_prob r < 2 \<and> in_range start_nt end_nt r) (prob_df dp));
        drawn = sort_key snd arc_list
    in sorted_arc_list_pdf start_nt end_nt
           (filter (\<lambda>row. row_log_prob row < 2) (prob_df dp)) = drawn \<and>
       sorted_arc_list_svg start_nt end_nt
           (filter (\<lambda>row. row_log_prob row < 2) (prob_df dp)) = drawn \<and>
       (fst (generate_arc_plot_pdf start_nt end_nt dp name plt) = Inr () \<longrightarrow>
          patches (figure (last (written (snd
              (generate_arc_plot_pdf start_nt end_nt dp name plt))))) = map fst drawn) \<and>
       (fst (generate_arc_plot_svg start_nt end_nt dp name plt) = Inr () \<longrightarrow>
          patches (figure (last (written (snd
              (generate_arc_plot_svg start_nt end_nt dp name plt))))) = map fst drawn) \<and>
       sorted (map snd drawn) \<and>
       (\<forall>m n. m < n \<and> n < length drawn \<longrightarrow> snd (drawn ! m) \<le> snd (drawn ! n)) \<and>
       (\<forall>k. filter (\<lambda>a. snd a = k) drawn = filter (\<lambda>a. snd a = k) arc_list))"
proof -
  define arc_list where "arc_list = map (\<lambda>r. arc_entry_pdf (row_i r) (row_j r) (row_log_prob r))
            (filter (\<lambda>r. row_log_prob r < 2 \<and> in_range start_nt end_nt r) (prob_df dp))"
  define drawn where "drawn = sort_key snd arc_list"
  have srt: "sorted (map snd drawn)"
    by (simp add: drawn_def)
  have idx: "\<forall>m n. m < n \<and> n < length drawn \<longrightarrow> snd (drawn ! m) \<le> snd (drawn ! n)"
  proof (intro allI impI)
    fix m n assume mn: "m < n \<and> n < length drawn"
    then have "map snd drawn ! m \<le> map snd drawn ! n"
      using srt by (simp add: sorted_iff_nth_mono)
    with mn show "snd (drawn ! m) \<le> snd (drawn ! n)" by simp
  qed
  have stable: "\<forall>k. filter (\<lambda>a. snd a = k) drawn = filter (\<lambda>a. snd a = k) arc_list"
    by (simp add: drawn_def sort_key_stable)
  have lp: "sorted_arc_list_pdf start_nt end_nt
           (filter (\<lambda>row. row_log_prob row < 2) (prob_df dp)) = drawn"
    by (simp add: sorted_arc_list_pdf_eq drawn_def arc_list_def)
  have ls: "sorted_arc_list_svg start_nt end_nt
           (filter (\<lambda>row. row_log_prob row < 2) (prob_df dp)) = drawn"
    by (simp add: sorted_arc_list_svg_pdf lp)
  have p: "fst (generate_arc_plot_pdf start_nt end_nt dp name plt) = Inr () \<longrightarrow>
          patches (figure (last (written (snd
              (generate_arc_plot_pdf start_nt end_nt dp name plt))))) = map fst drawn"
    by (simp add: pdf_patches lp)
  have s: "fst (generate_arc_plot_svg start_nt end_nt dp name plt) = Inr () \<longrightarrow>
          patches (figure (last (written (snd
              (generate_arc_plot_svg start_nt end_nt dp name plt))))) = map fst drawn"
    by (simp add: svg_patches lp)
  show ?thesis
    unfolding Let_def using lp ls p s srt idx stable
    by (simp only: drawn_def arc_list_def simp_thms)
qed

theorem arcs_added_in_priority_order_witness:
  "fst (generate_arc_plot_pdf 1 20 scenario_table ''AA'' fresh_pyplot) = Inr () \<and>
   fst (generate_arc_plot_svg 1 20 scenario_table ''AA'' fresh_pyplot) = Inr () \<and>
     (let arc_list = map (\<lambda>r. arc_entry_pdf (row_i r) (row_j r) (row_log_prob r))
            (filter (\<lambda>r. row_log_prob r < 2 \<and> in_range 1 20 r) (prob_df scenario_table));
          drawn = sort_key snd arc_list
      in patches (figure (last (written (snd
              (generate_arc_plot_pdf 1 20 scenario_table ''AA'' fresh_pyplot))))) = map fst drawn \<and>
         patches (figure (last (written (snd
              (generate_arc_plot_svg 1 20 scenario_table ''AA'' fresh_pyplot))))) = map fst drawn \<and>
         sorted (map snd drawn) \<and>
         map snd drawn = [0, 1, 2, 3] \<and>
         ((0::nat) < 3 \<and> 3 < length drawn \<and> snd (drawn ! 0) \<le> snd (drawn ! 3)) \<and>
         filter (\<lambda>a. snd a = 2) drawn = filter (\<lambda>a. snd a = 2) arc_list)"
proof -
  let ?A = "map (\<lambda>r. arc_entry_pdf (row_i r) (row_j r) (row_log_prob r))
            (filter (\<lambda>r. row_log_prob r < 2 \<and> in_range 1 20 r) (prob_df scenario_table))"
  let ?D = "sort_key snd ?A"
  have hp: "fst (generate_arc_plot_pdf 1 20 scenario_table ''AA'' fresh_pyplot) = Inr ()"
    by (rule scenario_returns)
  then have hs: "fst (generate_arc_plot_svg 1 20 scenario_table ''AA'' fresh_pyplot) = Inr ()"
    by (simp add: svg_fst_pdf)
  note t = arcs_added_in_priority_order
         [where start_nt = 1 and end_nt = 20 and dp = scenario_table and name = "''AA''"
            and plt = fresh_pyplot, unfolded Let_def]
  have v: "map snd ?D = [0, 1, 2, 3]"
    by (simp add: scenario_table_def arc_entry_pdf_def float_0_09691_def float_0_52288_def)
  have len: "(0::nat) < 3 \<and> 3 < length ?D"
    by (simp add: scenario_table_def)
  from t have idx: "\<forall>m n. m < n \<and> n < length ?D \<longrightarrow> snd (?D ! m) \<le> snd (?D ! n)"
    by (elim conjE)
  from idx len have i03: "snd (?D ! 0) \<le> snd (?D ! 3)"
    by blast
  from t have st: "\<forall>k. filter (\<lambda>a. snd a = k) ?D = filter (\<lambda>a. snd a = k) ?A"
    by (elim conjE)
  from st have s2: "filter (\<lambda>a. snd a = 2) ?D = filter (\<lambda>a. snd a = 2) ?A"
    by (rule spec)
  from t have "fst (generate_arc_plot_pdf 1 20 scenario_table ''AA'' fresh_pyplot) = Inr () \<longrightarrow>
      patches (figure (last (written (snd
              (generate_arc_plot_pdf 1 20 scenario_table ''AA'' fresh_pyplot))))) = map fst ?D"
    by (elim conjE)
  with hp have p: "patches (figure (last (written (snd
              (generate_arc_plot_pdf 1 20 scenario_table ''AA'' fresh_pyplot))))) = map fst ?D"
    by (rule rev_mp)
  from t have "fst (generate_arc_plot_svg 1 20 scenario_table ''AA'' fresh_pyplot) = Inr () \<longrightarrow>
      patches (figure (last (written (snd
              (generate_arc_plot_svg 1 20 scenario_table ''AA'' fresh_pyplot))))) = map fst ?D"
    by (elim conjE)
  with hs have s: "patches (figure (last (written (snd
              (generate_arc_plot_svg 1 20 scenario_table ''AA'' fresh_pyplot))))) = map fst ?D"
    by (rule rev_mp)
  from t have srt: "sorted (map snd ?D)"
    by (elim conjE)
  from hp hs p s srt v len i03 s2 show ?thesis
    unfolding Let_def by (intro conjI) (elim conjE, assumption)+
qed

subsection \<open>The two output formats\<close>

text \<open>
  Claim C9. On every table, request and state, the PDF cell and the SVG cell fail or
  succeed alike, request the same figure size from \<open>plt.subplots\<close>, compute the same
  maximum arc height, build the same sorted list of arcs with the same priorities, and
  save figures with the same axes: the same limits, ticks and arcs (centres, spans,
  colours) in the same draw order. The files written differ in name and format only:
  \<open>name.pdf\<close>, format pdf at 300 dpi, against \<open>name.svg\<close>, format svg with no dpi.
\<close>

theorem pdf_and_svg_same_content:
  "fst (generate_arc_plot_svg start_nt end_nt dp name plt) =
     fst (generate_arc_plot_pdf start_nt end_nt dp name plt) \<and>
   subplots_calls (snd (generate_arc_plot_svg start_nt end_nt dp name plt)) =
     subplots_calls (snd (generate_arc_plot_pdf start_nt end_nt dp name plt)) \<and>
   map figure (written (snd (generate_arc_plot_svg start_nt end_nt dp name plt))) =
     map figure (written (snd (generate_arc_plot_pdf start_nt end_nt dp name plt))) \<and>
   sorted_arc_list_svg start_nt end_nt (filter (\<lambda>row. row_log_prob row < 2) (prob_df dp)) =
     sorted_arc_list_pdf start_nt end_nt (filter (\<lambda>row. row_log_prob row < 2) (prob_df dp)) \<and>
   max_arc_height_svg start_nt end_nt (filter (\<lambda>row. row_log_prob row < 2) (prob_df dp)) =
     max_arc_height_pdf start_nt end_nt (filter (\<lambda>row. row_log_prob row < 2) (prob_df dp)) \<and>
   map (\<lambda>f. (path f, file_format f, bbox_inches f, dpi f))
       (drop (length (written plt))
          (written (snd (generate_arc_plot_pdf start_nt end_nt dp name plt)))) =
     (if fst (generate_arc_plot_pdf start_nt end_nt dp name plt) = Inr ()
      then [(name @ ''.pdf'', ''pdf'', ''tight'', Some 300)] else []) \<and>
   map (\<lambda>f. (path f, file_format f, bbox_inches f, dpi f))
       (drop (length (written plt))
          (written (snd (generate_arc_plot_svg start_nt end_nt dp name plt)))) =
     (if fst (generate_arc_plot_svg start_nt end_nt dp name plt) = Inr ()
      then [(name @ ''.svg'', ''svg'', ''tight'', None)] else [])"
proof (intro conjI)
  show "fst (generate_arc_plot_svg start_nt end_nt dp name plt) =
     fst (generate_arc_plot_pdf start_nt end_nt dp name plt)"
    by (rule svg_fst_pdf)
  show "subplots_calls (snd (generate_arc_plot_svg start_nt end_nt dp name plt)) =
     subplots_calls (snd (generate_arc_plot_pdf start_nt end_nt dp name plt))"
    by (simp add: generate_arc_plot_svg_def generate_arc_plot_pdf_def Let_def
        max_arc_height_svg_pdf)
  show "map figure (written (snd (generate_arc_plot_svg start_nt end_nt dp name plt))) =
     map figure (written (snd (generate_arc_plot_pdf start_nt end_nt dp name plt)))"
    by (rule svg_figure_pdf)
  show "sorted_arc_list_svg start_nt end_nt (filter (\<lambda>row. row_log_prob row < 2) (prob_df dp)) =
     sorted_arc_list_pdf start_nt end_nt (filter (\<lambda>row. row_log_prob row < 2) (prob_df dp))"
    by (rule sorted_arc_list_svg_pdf)
  show "max_arc_height_svg start_nt end_nt (filter (\<lambda>row. row_log_prob row < 2) (prob_df dp)) =
     max_arc_height_pdf start_nt end_nt (filter (\<lambda>row. row_log_prob row < 2) (prob_df dp))"
    by (rule max_arc_height_svg_pdf)
  show "map (\<lambda>f. (path f, file_format f, bbox_inches f, dpi f))
       (drop (length (written plt))
          (written (snd (generate_arc_plot_pdf start_nt end_nt dp name plt)))) =
     (if fst (generate_arc_plot_pdf start_nt end_nt dp name plt) = Inr ()
      then [(name @ ''.pdf'', ''pdf'', ''tight'', Some 300)] else [])"
    by (simp add: generate_arc_plot_pdf_def Let_def)
  show "map (\<lambda>f. (path f, file_format f, bbox_inches f, dpi f))
       (drop (length (written plt))
          (written (snd (generate_arc_plot_svg start_nt end_nt dp name plt)))) =
     (if fst (generate_arc_plot_svg start_nt end_nt dp name plt) = Inr ()
      then [(name @ ''.svg'', ''svg'', ''tight'', None)] else [])"
    by (simp add: generate_arc_plot_svg_def Let_def)
qed

subsection \<open>A reversed range\<close>




subsection \<open>Arc geometry\<close>

lemma arc_entry_pdf_xy [simp]: "xy (fst (arc_entry_pdf i j lp)) = (real_of_int (i + j) / 2, 0)"
  by (simp add: arc_entry_pdf_def)

lemma arc_entry_pdf_width [simp]: "width (fst (arc_entry_pdf i j lp)) = j - i"
  by (simp add: arc_entry_pdf_def)

lemma arc_entry_pdf_height [simp]: "height (fst (arc_entry_pdf i j lp)) = j - i"
  by (simp add: arc_entry_pdf_def)

lemma set_arc_list_pdf:
  "fst ` set (collect_arcs_pdf s e (filter (\<lambda>row. row_log_prob row < 2) rows) []) =
     (\<lambda>r. fst (arc_entry_pdf (row_i r) (row_j r) (row_log_prob r))) `
        {r \<in> set rows. row_log_prob r < 2 \<and> in_range s e r}"
  by (simp add: collect_arcs_pdf_eq image_image)

text \<open>
  Claim C3, as amended. For every retained row (score below 2) whose two positions lie in
  \<open>[start_nt, end_nt]\<close>, step 4 builds an arc with centre \<open>((i + j) / 2, 0)\<close> and with width
  and height both \<open>j - i\<close>, the signed difference; every arc of \<open>arc_list\<close> comes from such
  a row, and both renderers build the same list. No absolute value is taken: the span
  equals \<open>\<bar>j - i\<bar>\<close>, and is non-negative, exactly for the rows with \<open>i \<le> j\<close>.
\<close>

theorem arc_center_and_signed_span:
  "(let arcs_pdf = map fst (collect_arcs_pdf start_nt end_nt
                      (filter (\<lambda>row. row_log_prob row < 2) (prob_df dp)) []);
        arcs_svg = map fst (collect_arcs_svg start_nt end_nt
                      (filter (\<lambda>row. row_log_prob row < 2) (prob_df dp)) [])
    in (\<forall>r \<in> set (prob_df dp). row_log_prob r < 2 \<and> in_range start_nt end_nt r \<longrightarrow>
          (\<exists>a \<in> set arcs_pdf.
              xy a = (real_of_int (row_i r + row_j r) / 2, 0) \<and>
              width a = row_j r - row_i r \<and> height a = row_j r - row_i r \<and>
              (width a = \<bar>row_j r - row_i r\<bar> \<longleftrightarrow> row_i r \<le> row_j r) \<and>
              (0 \<le> width a \<longleftrightarrow> row_i r \<le> row_j r))) \<and>
       (\<forall>a \<in> set arcs_pdf.
          \<exists>r \<in> set (prob_df dp). row_log_prob r < 2 \<and> in_range start_nt end_nt r \<and>
              xy a = (real_of_int (row_i r + row_j r) / 2, 0) \<and>
              width a = row_j r - row_i r \<and> height a = row_j r - row_i r) \<and>
       arcs_svg = arcs_pdf)"
proof -
  let ?arcs = "map fst (collect_arcs_pdf start_nt end_nt
                      (filter (\<lambda>row. row_log_prob row < 2) (prob_df dp)) [])"
  let ?arc = "\<lambda>r. fst (arc_entry_pdf (row_i r) (row_j r) (row_log_prob r))"
  have S: "set ?arcs =
      ?arc ` {r \<in> set (prob_df dp). row_log_prob r < 2 \<and> in_range start_nt end_nt r}"
    using set_arc_list_pdf [of start_nt end_nt "prob_df dp"] by simp
  have fwd: "\<forall>r \<in> set (prob_df dp). row_log_prob r < 2 \<and> in_range start_nt end_nt r \<longrightarrow>
            (\<exists>a \<in> set ?arcs.
                xy a = (real_of_int (row_i r + row_j r) / 2, 0) \<and>
                width a = row_j r - row_i r \<and> height a = row_j r - row_i r \<and>
                (width a = \<bar>row_j r - row_i r\<bar> \<longleftrightarrow> row_i r \<le> row_j r) \<and>
                (0 \<le> width a \<longleftrightarrow> row_i r \<le> row_j r))"
  proof (intro ballI impI)
    fix r assume r: "r \<in> set (prob_df dp)" "row_log_prob r < 2 \<and> in_range start_nt end_nt r"
    then have "?arc r \<in> set ?arcs"
      unfolding S by blast
    moreover have "xy (?arc r) = (real_of_int (row_i r + row_j r) / 2, 0) \<and>
                width (?arc r) = row_j r - row_i r \<and> height (?arc r) = row_j r - row_i r \<and>
                (width (?arc r) = \<bar>row_j r - row_i r\<bar> \<longleftrightarrow> row_i r \<le> row_j r) \<and>
                (0 \<le> width (?arc r) \<longleftrightarrow> row_i r \<le> row_j r)"
      by auto
    ultimately show "\<exists>a \<in> set ?arcs.
                xy a = (real_of_int (row_i r + row_j r) / 2, 0) \<and>
                width a = row_j r - row_i r \<and> height a = row_j r - row_i r \<and>
                (width a = \<bar>row_j r - row_i r\<bar> \<longleftrightarrow> row_i r \<le> row_j r) \<and>
                (0 \<le> width a \<longleftrightarrow> row_i r \<le> row_j r)"
      by blast
  qed
  have bwd: "\<forall>a \<in> set ?arcs.
            \<exists>r \<in> set (prob_df dp). row_log_prob r < 2 \<and> in_range start_nt end_nt r \<and>
                xy a = (real_of_int (row_i r + row_j r) / 2, 0) \<and>
                width a = row_j r - row_i r \<and> height a = row_j r - row_i r"
    unfolding S by auto
  have same: "map fst (collect_arcs_svg start_nt end_nt
                      (filter (\<lambda>row. row_log_prob row < 2) (prob_df dp)) []) = ?arcs"
    by (simp add: collect_arcs_svg_eq collect_arcs_pdf_eq arc_entry_svg_pdf)
  show ?thesis
    unfolding Let_def using fwd bwd same by (intro conjI)
qed

theorem arc_center_and_signed_span_witness:
  "\<lparr>row_i = 12, row_j = 8, row_log_prob = 0.3\<rparr> \<in> set (prob_df unordered_table) \<and>
   (0.3::real) < 2 \<and> in_range 1 20 \<lparr>row_i = 12, row_j = 8, row_log_prob = 0.3\<rparr> \<and>
   (\<exists>a \<in> set (map fst (collect_arcs_pdf 1 20
                 (filter (\<lambda>row. row_log_prob row < 2) (prob_df unordered_table)) [])).
      xy a = (10, 0) \<and> width a = - 4 \<and> height a = - 4)"
proof -
  have r: "\<lparr>row_i = 12, row_j = 8, row_log_prob = 0.3\<rparr> \<in> set (prob_df unordered_table)"
    by (simp add: unordered_table_def)
  have c: "row_log_prob \<lparr>row_i = 12, row_j = 8, row_log_prob = 0.3\<rparr> < 2 \<and>
           in_range 1 20 \<lparr>row_i = 12, row_j = 8, row_log_prob = 0.3\<rparr>"
    by simp
  from arc_center_and_signed_span
         [where start_nt = 1 and end_nt = 20 and dp = unordered_table]
  have "\<forall>r \<in> set (prob_df unordered_table). row_log_prob r < 2 \<and> in_range 1 20 r \<longrightarrow>
            (\<exists>a \<in> set (map fst (collect_arcs_pdf 1 20
                 (filter (\<lambda>row. row_log_prob row < 2) (prob_df unordered_table)) [])).
                xy a = (real_of_int (row_i r + row_j r) / 2, 0) \<and>
                width a = row_j r - row_i r \<and> height a = row_j r - row_i r \<and>
                (width a = \<bar>row_j r - row_i r\<bar> \<longleftrightarrow> row_i r \<le> row_j r) \<and>
                (0 \<le> width a \<longleftrightarrow> row_i r \<le> row_j r))"
    unfolding Let_def by (rule conjunct1)
  from bspec [OF this r] c
  have "\<exists>a \<in> set (map fst (collect_arcs_pdf 1 20
                 (filter (\<lambda>row. row_log_prob row < 2) (prob_df unordered_table)) [])).
      xy a = (10, 0) \<and> width a = - 4 \<and> height a = - 4"
    by auto
  with r show ?thesis by simp
qed

text \<open>
  Claim C3 as stated (span \<open>\<bar>j - i\<bar>\<close>, never negative) fails on the table of length 20 with
  the rows \<open>(5, 15, 0.05)\<close> and \<open>(12, 8, 0.3)\<close> and the range \<open>[1, 20]\<close>. The figure height
  is \<open>1.25\<close>, the call returns normally, and the saved axes hold, in draw order, the arc
  of the second row, centred at 10 with width and height \<open>-4\<close>, and the arc of the first.
\<close>

theorem span_not_absolute_counterexample:
  "fst (generate_arc_plot_pdf 1 20 unordered_table ''AA'' fresh_pyplot) = Inr () \<and>
   map snd (subplots_calls (snd (generate_arc_plot_pdf 1 20 unordered_table ''AA'' fresh_pyplot)))
     = [5 / 4] \<and>
   map (\<lambda>a. (xy a, width a, height a))
     (patches (figure (last (written (snd
        (generate_arc_plot_pdf 1 20 unordered_table ''AA'' fresh_pyplot))))))
   = [((10, 0), - 4, - 4), ((10, 0), 10, 10)]"
  by (simp add: generate_arc_plot_pdf_def unordered_table_def fresh_pyplot_def Let_def
      max_arc_height_pdf_def subplots_accepts_def savefig_accepts_def new_axes_def
      sorted_arc_list_pdf_def arc_entry_pdf_def float_0_09691_def float_0_52288_def)

subsection \<open>Canvas height\<close>

text \<open>
  Claim C4, evaluated where the code departs from it.

  On the table of length 50 with the single row \<open>(30, 2, 0.05)\<close> and the range \<open>[5, 20]\<close>,
  no arc lies in the range and \<open>arc_list\<close> is empty, yet the row passes the filter of
  step 3, which tests \<open>j \<le> end_nt\<close> and \<open>i \<ge> start_nt\<close> only: \<open>max_arc_height\<close> is
  \<open>(2 - 30) / 2 = -14\<close>, not 0, and the height \<open>-3.5\<close> makes \<open>plt.subplots\<close> raise.

  On the scenario table and the range \<open>[1, 4]\<close>, which holds no pair, \<open>max_arc_height\<close> is
  0 and no arc is built, as the claim says, but the call is an error: the figure of
  height 0 is created and \<open>plt.savefig\<close> raises on it, so nothing is written.
\<close>

theorem canvas_height_at_failing_inputs:
  "max_arc_height_pdf 5 20 (filter (\<lambda>row. row_log_prob row < 2) (prob_df outside_table))
     = - 14 \<and>
   sorted_arc_list_pdf 5 20 (filter (\<lambda>row. row_log_prob row < 2) (prob_df outside_table))
     = [] \<and>
   generate_arc_plot_pdf 5 20 outside_table ''AA'' fresh_pyplot
     = (Inl (MatplotlibError Subplots), fresh_pyplot) \<and>
   max_arc_height_pdf 1 4 (filter (\<lambda>row. row_log_prob row < 2) (prob_df scenario_table))
     = 0 \<and>
   sorted_arc_list_pdf 1 4 (filter (\<lambda>row. row_log_prob row < 2) (prob_df scenario_table))
     = [] \<and>
   fst (generate_arc_plot_pdf 1 4 scenario_table ''AA'' fresh_pyplot)
     = Inl (MatplotlibError Savefig) \<and>
   map snd (subplots_calls (snd (generate_arc_plot_pdf 1 4 scenario_table ''AA'' fresh_pyplot)))
     = [0] \<and>
   written (snd (generate_arc_plot_pdf 1 4 scenario_table ''AA'' fresh_pyplot)) = []"
proof -
  have a: "max_arc_height_pdf 5 20 (filter (\<lambda>row. row_log_prob row < 2) (prob_df outside_table))
     = - 14"
    by (simp add: max_arc_height_pdf_def outside_table_def)
  have b: "sorted_arc_list_pdf 5 20 (filter (\<lambda>row. row_log_prob row < 2) (prob_df outside_table))
     = []"
    by (simp add: sorted_arc_list_pdf_def outside_table_def)
  have c: "generate_arc_plot_pdf 5 20 outside_table ''AA'' fresh_pyplot
     = (Inl (MatplotlibError Subplots), fresh_pyplot)"
    by (simp add: generate_arc_plot_pdf_def Let_def a subplots_accepts_def)
       (simp add: outside_table_def)
  have d: "max_arc_height_pdf 1 4 (filter (\<lambda>row. row_log_prob row < 2) (prob_df scenario_table))
     = 0"
    by (simp add: max_arc_height_pdf_def scenario_table_def)
  have e: "sorted_arc_list_pdf 1 4 (filter (\<lambda>row. row_log_prob row < 2) (prob_df scenario_table))
     = []"
    by (simp add: sorted_arc_list_pdf_def scenario_table_def)
  have t: "4 \<le> total_length scenario_table"
    by (simp add: scenario_table_def)
  have f: "fst (generate_arc_plot_pdf 1 4 scenario_table ''AA'' fresh_pyplot)
     = Inl (MatplotlibError Savefig)"
    using t by (simp add: generate_arc_plot_pdf_def Let_def d subplots_accepts_def
        savefig_accepts_def)
  have g: "map snd (subplots_calls (snd (generate_arc_plot_pdf 1 4 scenario_table ''AA''
      fresh_pyplot))) = [0]"
    using t by (simp add: generate_arc_plot_pdf_def Let_def d subplots_accepts_def
        savefig_accepts_def fresh_pyplot_def)
  have h: "written (snd (generate_arc_plot_pdf 1 4 scenario_table ''AA'' fresh_pyplot)) = []"
    using t by (simp add: generate_arc_plot_pdf_def Let_def d subplots_accepts_def
        savefig_accepts_def fresh_pyplot_def)
  from a b c d e f g h show ?thesis
    by (intro conjI)
qed

subsection \<open>Bands and the global cutoff\<close>

text \<open>
  The two thresholds are doubles: 53-bit significands over a power of two, within half a
  unit in the last place of the decimals the source writes.
\<close>

lemma float_literals_nearest:
  "float_0_09691 = 6983101438215596 / 2 ^ 56 \<and> (6983101438215596::int) < 2 ^ 53 \<and>
   \<bar>float_0_09691 - 0.09691\<bar> \<le> 1 / 2 ^ 57 \<and> float_0_09691 < 0.09691 \<and>
   float_0_52288 = 4709684346318970 / 2 ^ 53 \<and> (4709684346318970::int) < 2 ^ 53 \<and>
   \<bar>float_0_52288 - 0.52288\<bar> \<le> 1 / 2 ^ 54 \<and> 0.52288 < float_0_52288"
  by (simp add: float_0_09691_def float_0_52288_def)

text \<open>
  Claim C5. The colour and priority of a row depend on its score alone, by fixed
  thresholds that are inclusive at the upper end of each band; the thresholds are the
  floats the literals \<open>0.09691\<close> and \<open>0.52288\<close> denote. Up to \<open>0.09691\<close> green with priority
  3 (HIGH), so exactly \<open>0.09691\<close> is HIGH; above it and up to \<open>0.52288\<close> blue with priority 2
  (MEDIUM\_HIGH), so exactly \<open>0.52288\<close> is MEDIUM\_HIGH; above that and up to 1 yellow with
  priority 1 (MEDIUM), so exactly 1 is MEDIUM; above 1 light grey with priority 0 (LOW).
  Rows with score 2 or more are removed before anything else is computed: rendering a
  table gives the same result as rendering it without those rows.
\<close>

theorem band_thresholds_and_cutoff:
  "(let entry = arc_entry_pdf i j log_prob;
        band = (color (fst entry), snd entry, band_of_priority (snd entry))
    in (log_prob \<le> float_0_09691 \<longrightarrow> band = (''green'', 3, HIGH)) \<and>
       (float_0_09691 < log_prob \<and> log_prob \<le> float_0_52288 \<longrightarrow>
          band = (''#1C73BE'', 2, MEDIUM_HIGH)) \<and>
       (float_0_52288 < log_prob \<and> log_prob \<le> 1 \<longrightarrow> band = (''#F7CE12'', 1, MEDIUM)) \<and>
       (1 < log_prob \<longrightarrow> band = (''#D3D3D3'', 0, LOW))) \<and>
   generate_arc_plot_pdf start_nt end_nt
       (dp\<lparr>prob_df := filter (\<lambda>row. \<not> row_log_prob row \<ge> 2) (prob_df dp)\<rparr>) name plt
     = generate_arc_plot_pdf start_nt end_nt dp name plt"
proof -
  have keep: "\<And>x::real. (\<not> 2 \<le> x \<and> x < 2) = (x < 2)"
    by auto
  have cut: "generate_arc_plot_pdf start_nt end_nt
       (dp\<lparr>prob_df := filter (\<lambda>row. \<not> row_log_prob row \<ge> 2) (prob_df dp)\<rparr>) name plt
     = generate_arc_plot_pdf start_nt end_nt dp name plt"
    by (simp add: generate_arc_plot_pdf_def keep)
  have o1: "float_0_09691 < float_0_52288" and o2: "float_0_52288 < 1"
    by (simp_all add: float_0_09691_def float_0_52288_def)
  have bands: "(let entry = arc_entry_pdf i j log_prob;
        band = (color (fst entry), snd entry, band_of_priority (snd entry))
    in (log_prob \<le> float_0_09691 \<longrightarrow> band = (''green'', 3, HIGH)) \<and>
       (float_0_09691 < log_prob \<and> log_prob \<le> float_0_52288 \<longrightarrow>
          band = (''#1C73BE'', 2, MEDIUM_HIGH)) \<and>
       (float_0_52288 < log_prob \<and> log_prob \<le> 1 \<longrightarrow> band = (''#F7CE12'', 1, MEDIUM)) \<and>
       (1 < log_prob \<longrightarrow> band = (''#D3D3D3'', 0, LOW)))"
    using o1 o2 by (auto simp add: arc_entry_pdf_def band_of_priority_def Let_def)
  from bands cut show ?thesis by (rule conjI)
qed

theorem band_thresholds_and_cutoff_witness:
  "(float_0_09691 \<le> float_0_09691 \<and>
    (color (fst (arc_entry_pdf 5 15 float_0_09691)), snd (arc_entry_pdf 5 15 float_0_09691),
     band_of_priority (snd (arc_entry_pdf 5 15 float_0_09691))) = (''green'', 3, HIGH)) \<and>
   (float_0_09691 < float_0_52288 \<and> float_0_52288 \<le> float_0_52288 \<and>
    (color (fst (arc_entry_pdf 5 15 float_0_52288)), snd (arc_entry_pdf 5 15 float_0_52288),
     band_of_priority (snd (arc_entry_pdf 5 15 float_0_52288))) = (''#1C73BE'', 2, MEDIUM_HIGH)) \<and>
   (float_0_09691 < 0.09692 \<and> (0.09692::real) \<le> float_0_52288 \<and>
    (color (fst (arc_entry_pdf 5 15 0.09692)), snd (arc_entry_pdf 5 15 0.09692),
     band_of_priority (snd (arc_entry_pdf 5 15 0.09692))) = (''#1C73BE'', 2, MEDIUM_HIGH)) \<and>
   (float_0_52288 < 1 \<and> (1::real) \<le> 1 \<and>
    (color (fst (arc_entry_pdf 5 15 1)), snd (arc_entry_pdf 5 15 1),
     band_of_priority (snd (arc_entry_pdf 5 15 1))) = (''#F7CE12'', 1, MEDIUM)) \<and>
   ((1::real) < 1.00001 \<and>
    (color (fst (arc_entry_pdf 5 15 1.00001)), snd (arc_entry_pdf 5 15 1.00001),
     band_of_priority (snd (arc_entry_pdf 5 15 1.00001))) = (''#D3D3D3'', 0, LOW)) \<and>
   generate_arc_plot_pdf 1 20
       (scenario_table\<lparr>prob_df :=
          filter (\<lambda>row. \<not> row_log_prob row \<ge> 2) (prob_df scenario_table)\<rparr>) ''AA'' fresh_pyplot
     = generate_arc_plot_pdf 1 20 scenario_table ''AA'' fresh_pyplot"
proof -
  note t = band_thresholds_and_cutoff
             [where i = 5 and j = 15 and start_nt = 1 and end_nt = 20 and dp = scenario_table
                and name = "''AA''" and plt = fresh_pyplot, unfolded Let_def]
  have o: "float_0_09691 < float_0_52288" "float_0_52288 < 1"
          "float_0_09691 < 0.09692" "(0.09692::real) \<le> float_0_52288"
    by (simp_all add: float_0_09691_def float_0_52288_def)
  have a: "float_0_09691 \<le> float_0_09691 \<and>
    (color (fst (arc_entry_pdf 5 15 float_0_09691)), snd (arc_entry_pdf 5 15 float_0_09691),
     band_of_priority (snd (arc_entry_pdf 5 15 float_0_09691))) = (''green'', 3, HIGH)"
    using t [where log_prob = float_0_09691] by (simp add: band_of_priority_def)
  have b: "float_0_09691 < float_0_52288 \<and> float_0_52288 \<le> float_0_52288 \<and>
    (color (fst (arc_entry_pdf 5 15 float_0_52288)), snd (arc_entry_pdf 5 15 float_0_52288),
     band_of_priority (snd (arc_entry_pdf 5 15 float_0_52288))) = (''#1C73BE'', 2, MEDIUM_HIGH)"
    using t [where log_prob = float_0_52288] o by (simp add: band_of_priority_def)
  have b': "float_0_09691 < 0.09692 \<and> (0.09692::real) \<le> float_0_52288 \<and>
    (color (fst (arc_entry_pdf 5 15 0.09692)), snd (arc_entry_pdf 5 15 0.09692),
     band_of_priority (snd (arc_entry_pdf 5 15 0.09692))) = (''#1C73BE'', 2, MEDIUM_HIGH)"
    using t [where log_prob = "0.09692"] o by (simp add: band_of_priority_def)
  have c: "float_0_52288 < 1 \<and> (1::real) \<le> 1 \<and>
    (color (fst (arc_entry_pdf 5 15 1)), snd (arc_entry_pdf 5 15 1),
     band_of_priority (snd (arc_entry_pdf 5 15 1))) = (''#F7CE12'', 1, MEDIUM)"
    using t [where log_prob = 1] o by (simp add: band_of_priority_def)
  have d: "(1::real) < 1.00001 \<and>
    (color (fst (arc_entry_pdf 5 15 1.00001)), snd (arc_entry_pdf 5 15 1.00001),
     band_of_priority (snd (arc_entry_pdf 5 15 1.00001))) = (''#D3D3D3'', 0, LOW)"
    using t [where log_prob = "1.00001"] by (simp add: band_of_priority_def)
  have e: "generate_arc_plot_pdf 1 20
       (scenario_table\<lparr>prob_df :=
          filter (\<lambda>row. \<not> row_log_prob row \<ge> 2) (prob_df scenario_table)\<rparr>) ''AA'' fresh_pyplot
     = generate_arc_plot_pdf 1 20 scenario_table ''AA'' fresh_pyplot"
    using t [where log_prob = 1] by (rule conjunct2)
  from a b b' c d e show ?thesis by blast
qed

subsection \<open>Positions are never compared with the sequence bounds\<close>






end
